theory Spec2Isabelle
  imports Main
begin

section \<open>Python values\<close>

text \<open>
  The exceptions the modelled code can raise. \<open>OtherException\<close> stands for any other
  subclass of Python's \<open>Exception\<close>, named by its text; the language-model client and
  the retriever raise those.
\<close>

datatype py_exception =
  AttributeError | IntegrityError | JSONDecodeError | OtherException string

text \<open>
  A JSON value, as \<open>request.get_json\<close> and \<open>json.loads\<close> return it and as
  \<open>jsonify\<close> and \<open>json.dumps\<close> take it. Numbers are integers here; no modelled
  function looks inside a number.
\<close>

datatype json =
  JNull | JBool bool | JNum int | JStr string | JArr "json list" | JObj "(string \<times> json) list"

text \<open>
  \<open>dict.get(key, default)\<close> on a parsed JSON object, kept as the list of its members,
  each key once.
\<close>

definition dict_get :: "(string \<times> json) list \<Rightarrow> string \<Rightarrow> json \<Rightarrow> json" where
  "dict_get members key dflt = (case map_of members key of None \<Rightarrow> dflt | Some v \<Rightarrow> v)"

text \<open>
  \<open>str.strip()\<close> removes leading and trailing whitespace. A character is a code point
  below 256; of those Python's \<open>str.isspace\<close> accepts tab, line feed, vertical tab,
  form feed, carriage return, the four separators 0x1C to 0x1F, space, 0x85 and 0xA0.
\<close>

definition py_isspace :: "char \<Rightarrow> bool" where
  "py_isspace c = (of_char c \<in> set [9, 10, 11, 12, 13, 28, 29, 30, 31, 32, 133, 160 :: nat])"

definition strip :: "string \<Rightarrow> string" where
  "strip s = rev (dropWhile py_isspace (rev (dropWhile py_isspace s)))"

section \<open>The persistence store (database.py)\<close>

text \<open>
  The three tables of \<open>init_db\<close>. A table is the list of its rows in rowid order,
  which is insertion order, since no row is ever deleted. Timestamps are the value of
  \<open>CURRENT_TIMESTAMP\<close>, a text \<open>YYYY-MM-DD HH:MM:SS\<close> whose text order is the order of
  time: they are modelled by the number of whole seconds they denote. A nullable column
  whose value can be NULL in this program has an option type.
\<close>

record user_row =
  u_id :: nat
  u_username :: string
  u_email :: string
  u_password_hash :: string
  u_full_name :: string
  u_phone_number :: string
  u_educational_background :: "string option"
  u_interests :: "string option"
  u_created_at :: nat

record session_row =
  ss_session_id :: string
  ss_user_id :: nat
  ss_session_name :: string
  ss_created_at :: nat
  ss_updated_at :: nat

record message_row =
  mg_id :: nat
  mg_session_id :: "string option"
  mg_user_id :: nat
  mg_message_type :: string
  mg_message_text :: string
  mg_timestamp :: nat

text \<open>
  The database file: the three tables and, for the two \<open>AUTOINCREMENT\<close> tables, the
  largest rowid ever handed out (SQLite's \<open>sqlite_sequence\<close>).
\<close>

record database =
  users :: "user_row list"
  users_seq :: nat
  chat_sessions :: "session_row list"
  chat_messages :: "message_row list"
  chat_messages_seq :: nat

definition init_db :: database where
  "init_db = \<lparr>users = [], users_seq = 0, chat_sessions = [], chat_messages = [],
     chat_messages_seq = 0\<rparr>"

text \<open>
  The rowid of a new row of an \<open>AUTOINCREMENT\<close> table: one more than the largest rowid
  that the table holds or ever held.
\<close>

definition next_rowid :: "nat \<Rightarrow> nat list \<Rightarrow> nat" where
  "next_rowid seq ids = Suc (fold max ids seq)"

text \<open>
  SQL's \<open>column = ?\<close> for a nullable text column and a parameter that may be NULL
  (Python's \<open>None\<close>): a comparison with NULL on either side is never true.
\<close>

fun sql_eq :: "'a option \<Rightarrow> 'a option \<Rightarrow> bool" where
  "sql_eq (Some a) (Some b) = (a = b)"
| "sql_eq _ _ = False"

text \<open>
  \<open>ORDER BY\<close>: SQLite sorts the rows it scans with a merge sort that keeps rows of equal
  key in scan order, here rowid order. \<open>sort_key\<close> is such a stable sort.
\<close>

definition order_by_asc :: "('a \<Rightarrow> nat) \<Rightarrow> 'a list \<Rightarrow> 'a list" where
  "order_by_asc key rows = sort_key key rows"

definition order_by_desc :: "('a \<Rightarrow> nat) \<Rightarrow> 'a list \<Rightarrow> 'a list" where
  "order_by_desc key rows = sort_key (\<lambda>r. - int (key r)) rows"

text \<open>
  The \<open>INSERT INTO users\<close> of \<open>create_user\<close>. \<open>username\<close> and \<open>email\<close> are
  \<open>UNIQUE NOT NULL\<close>: NULL or a value already in the table raises
  \<open>sqlite3.IntegrityError\<close> and leaves the table as it was.
\<close>

definition insert_user ::
  "database \<Rightarrow> nat \<Rightarrow> string option \<Rightarrow> string option \<Rightarrow> string \<Rightarrow> string \<Rightarrow> string
     \<Rightarrow> py_exception + (database \<times> nat)" where
  "insert_user s now username email password_hash full_name phone_number =
     (case (username, email) of
        (Some u, Some e) \<Rightarrow>
          if u \<in> set (map u_username (users s)) \<or> e \<in> set (map u_email (users s))
          then Inl IntegrityError
          else
            let user_id = next_rowid (users_seq s) (map u_id (users s)) in
            Inr (s\<lparr>users := users s @
                     [\<lparr>u_id = user_id, u_username = u, u_email = e,
                       u_password_hash = password_hash, u_full_name = full_name,
                       u_phone_number = phone_number, u_educational_background = None,
                       u_interests = None, u_created_at = now\<rparr>],
                   users_seq := user_id\<rparr>, user_id)
      | _ \<Rightarrow> Inl IntegrityError)"

text \<open>
  \<open>create_session\<close>: \<open>uuid4\<close> is the token that \<open>uuid.uuid4()\<close> returns in this call.
  \<open>session_id\<close> is the primary key, so a token already in the table raises
  \<open>sqlite3.IntegrityError\<close>.
\<close>

definition create_session ::
  "database \<Rightarrow> nat \<Rightarrow> string \<Rightarrow> nat \<Rightarrow> string \<Rightarrow> py_exception + (database \<times> string)" where
  "create_session s now uuid4 user_id session_name =
     (let session_id = uuid4 in
      if session_id \<in> set (map ss_session_id (chat_sessions s)) then Inl IntegrityError
      else Inr (s\<lparr>chat_sessions := chat_sessions s @
                    [\<lparr>ss_session_id = session_id, ss_user_id = user_id,
                      ss_session_name = session_name, ss_created_at = now,
                      ss_updated_at = now\<rparr>]\<rparr>, session_id))"

text \<open>
  \<open>create_user\<close>. \<open>hash_password\<close> is \<open>hashlib.sha256(password.encode()).hexdigest()\<close>,
  passed as the function \<open>sha256\<close>; a password that is \<open>None\<close> has no \<open>encode\<close> and
  raises \<open>AttributeError\<close> before the database is touched. The insert is committed
  before the default session is created, and the handler of \<open>sqlite3.IntegrityError\<close>
  encloses both: an \<open>IntegrityError\<close> of \<open>create_session\<close> also makes the result
  \<open>None\<close>, with the user row already stored. \<open>now\<close> is the value of
  \<open>CURRENT_TIMESTAMP\<close>, the two inserts running within one second of the clock.
\<close>

definition create_user ::
  "(string \<Rightarrow> string) \<Rightarrow> database \<Rightarrow> nat \<Rightarrow> string \<Rightarrow> string option \<Rightarrow> string option
     \<Rightarrow> string option \<Rightarrow> string \<Rightarrow> string \<Rightarrow> database \<times> (py_exception + nat option)" where
  "create_user sha256 s now uuid4 username email password full_name phone_number =
     (case password of
        None \<Rightarrow> (s, Inl AttributeError)
      | Some pw \<Rightarrow>
          let password_hash = sha256 pw in
          (case insert_user s now username email password_hash full_name phone_number of
             Inl e \<Rightarrow> (s, Inr None)
           | Inr (s1, user_id) \<Rightarrow>
               (case create_session s1 now uuid4 user_id ''Career Counseling Session'' of
                  Inl e \<Rightarrow> (s1, Inr None)
                | Inr (s2, session_id) \<Rightarrow> (s2, Inr (Some user_id)))))"

text \<open>The dictionary that \<open>verify_user\<close> and \<open>get_user_by_id\<close> return.\<close>

record user =
  usr_id :: nat
  usr_username :: string
  usr_email :: string
  usr_full_name :: string
  usr_phone_number :: string
  usr_educational_background :: "string option"
  usr_interests :: json

text \<open>
  \<open>json.loads(user[6]) if user[6] else []\<close>: NULL and the empty text are false and
  give the empty list; any other text goes to \<open>json.loads\<close>, passed as the function
  \<open>json_loads\<close>, which may raise.
\<close>

definition user_dict :: "(string \<Rightarrow> py_exception + json) \<Rightarrow> user_row \<Rightarrow> py_exception + user" where
  "user_dict json_loads r =
     (case (case u_interests r of
              None \<Rightarrow> Inr (JArr [])
            | Some t \<Rightarrow> if t = [] then Inr (JArr []) else json_loads t) of
        Inl e \<Rightarrow> Inl e
      | Inr interests \<Rightarrow>
          Inr \<lparr>usr_id = u_id r, usr_username = u_username r, usr_email = u_email r,
               usr_full_name = u_full_name r, usr_phone_number = u_phone_number r,
               usr_educational_background = u_educational_background r,
               usr_interests = interests\<rparr>)"

definition verify_user ::
  "(string \<Rightarrow> string) \<Rightarrow> (string \<Rightarrow> py_exception + json) \<Rightarrow> database \<Rightarrow> string option
     \<Rightarrow> string option \<Rightarrow> py_exception + user option" where
  "verify_user sha256 json_loads s username password =
     (case password of
        None \<Rightarrow> Inl AttributeError
      | Some pw \<Rightarrow>
          let password_hash = sha256 pw in
          (case find (\<lambda>r. sql_eq (Some (u_username r)) username
                            \<and> u_password_hash r = password_hash) (users s) of
             None \<Rightarrow> Inr None
           | Some r \<Rightarrow>
               (case user_dict json_loads r of Inl e \<Rightarrow> Inl e | Inr u \<Rightarrow> Inr (Some u))))"

definition get_user_by_id ::
  "(string \<Rightarrow> py_exception + json) \<Rightarrow> database \<Rightarrow> nat \<Rightarrow> py_exception + user option" where
  "get_user_by_id json_loads s user_id =
     (case find (\<lambda>r. u_id r = user_id) (users s) of
        None \<Rightarrow> Inr None
      | Some r \<Rightarrow> (case user_dict json_loads r of Inl e \<Rightarrow> Inl e | Inr u \<Rightarrow> Inr (Some u)))"

text \<open>
  \<open>save_message\<close>: the insert into \<open>chat_messages\<close>, then the update of the session's
  \<open>updated_at\<close>. Both statements read \<open>CURRENT_TIMESTAMP\<close>; \<open>now\<close> is its value, the
  two statements running within one second of the clock. No foreign key is enforced
  (the connection never turns \<open>PRAGMA foreign_keys\<close> on), so nothing raises.
\<close>

definition save_message ::
  "database \<Rightarrow> nat \<Rightarrow> string option \<Rightarrow> nat \<Rightarrow> string \<Rightarrow> string \<Rightarrow> database" where
  "save_message s now session_id user_id message_type message_text =
     (let message_id = next_rowid (chat_messages_seq s) (map mg_id (chat_messages s)) in
      s\<lparr>chat_messages := chat_messages s @
           [\<lparr>mg_id = message_id, mg_session_id = session_id, mg_user_id = user_id,
             mg_message_type = message_type, mg_message_text = message_text,
             mg_timestamp = now\<rparr>],
        chat_messages_seq := message_id,
        chat_sessions :=
          map (\<lambda>r. if sql_eq (Some (ss_session_id r)) session_id
                    then r\<lparr>ss_updated_at := now\<rparr> else r) (chat_sessions s)\<rparr>)"

record session_dict =
  sd_session_id :: string
  sd_session_name :: string
  sd_created_at :: nat
  sd_updated_at :: nat

definition get_user_sessions :: "database \<Rightarrow> nat \<Rightarrow> session_dict list" where
  "get_user_sessions s user_id =
     map (\<lambda>r. \<lparr>sd_session_id = ss_session_id r, sd_session_name = ss_session_name r,
               sd_created_at = ss_created_at r, sd_updated_at = ss_updated_at r\<rparr>)
       (order_by_desc ss_updated_at (filter (\<lambda>r. ss_user_id r = user_id) (chat_sessions s)))"

record message_dict =
  md_type :: string
  md_text :: string
  md_timestamp :: nat

text \<open>The rows that the \<open>SELECT\<close> of \<open>get_chat_history\<close> yields, in its order.\<close>

definition chat_history_rows :: "database \<Rightarrow> string option \<Rightarrow> nat \<Rightarrow> message_row list" where
  "chat_history_rows s session_id user_id =
     order_by_asc mg_timestamp
       (filter (\<lambda>m. sql_eq (mg_session_id m) session_id \<and> mg_user_id m = user_id)
          (chat_messages s))"

definition get_chat_history :: "database \<Rightarrow> string option \<Rightarrow> nat \<Rightarrow> message_dict list" where
  "get_chat_history s session_id user_id =
     map (\<lambda>m. \<lparr>md_type = mg_message_type m, md_text = mg_message_text m,
               md_timestamp = mg_timestamp m\<rparr>)
       (chat_history_rows s session_id user_id)"

text \<open>
  \<open>update_user_profile\<close>: \<open>json.dumps\<close> is passed as the function \<open>json_dumps\<close>. The
  update changes every row with that id, none when there is no such user.
\<close>

definition update_user_profile ::
  "(json \<Rightarrow> string) \<Rightarrow> database \<Rightarrow> nat \<Rightarrow> string \<Rightarrow> json \<Rightarrow> database" where
  "update_user_profile json_dumps s user_id educational_background interests =
     s\<lparr>users :=
         map (\<lambda>r. if u_id r = user_id
                   then r\<lparr>u_educational_background := Some educational_background,
                          u_interests := Some (json_dumps interests)\<rparr>
                   else r) (users s)\<rparr>"

section \<open>The answer generator (app.py)\<close>

text \<open>
  What \<open>model.invoke\<close> returns: an object with a \<open>content\<close> attribute, whose text is
  the answer, or any other object, of which \<open>str(response)\<close> is taken.
\<close>

datatype llm_response = WithContent string | WithoutContent string

definition response_text :: "llm_response \<Rightarrow> string" where
  "response_text response =
     (case response of WithContent content \<Rightarrow> content | WithoutContent str \<Rightarrow> str)"

definition simple_prompt :: "string \<Rightarrow> string" where
  "simple_prompt question =
     ''You are a helpful career counselor assistant. '' @ [CHR 0x0A] @
     ''Answer the following question about career guidance:'' @ [CHR 0x0A] @
     [CHR 0x0A] @
     ''Question: '' @ question @ [CHR 0x0A] @
     [CHR 0x0A] @
     ''Answer:''"

definition rag_prompt :: "string \<Rightarrow> string \<Rightarrow> string" where
  "rag_prompt context question =
     ''You are a helpful and knowledgeable career counselor assistant.'' @ [CHR 0x0A] @
     ''Answer questions based on the context provided.'' @ [CHR 0x0A] @
     [CHR 0x0A] @
     ''Context:'' @ [CHR 0x0A] @
     context @ [CHR 0x0A] @
     [CHR 0x0A] @
     ''Question:'' @ [CHR 0x0A] @
     question @ [CHR 0x0A] @
     [CHR 0x0A] @
     ''Answer:''"

text \<open>\<open>"\n\n".join(...)\<close> over the \<open>page_content\<close> of the retrieved documents.\<close>

fun join_context :: "string list \<Rightarrow> string" where
  "join_context [] = []"
| "join_context [d] = d"
| "join_context (d # ds) = d @ [CHR 0x0A, CHR 0x0A] @ join_context ds"

text \<open>
  The body of the \<open>try\<close> block of \<open>get_ai_response\<close>. \<open>invoke\<close> is \<open>model.invoke\<close>
  and \<open>retrieve\<close> is \<open>retriever.invoke\<close>; each returns or raises.
\<close>

definition ai_response_try ::
  "(string \<Rightarrow> py_exception + llm_response) \<Rightarrow> (string \<Rightarrow> py_exception + string list) option
     \<Rightarrow> string \<Rightarrow> py_exception + string" where
  "ai_response_try invoke retriever question =
     (case retriever of
        None \<Rightarrow>
          (case invoke (simple_prompt question) of
             Inl e \<Rightarrow> Inl e
           | Inr response \<Rightarrow> Inr (response_text response))
      | Some retrieve \<Rightarrow>
          (case retrieve question of
             Inl e \<Rightarrow> Inl e
           | Inr docs \<Rightarrow>
               (case invoke (rag_prompt (join_context docs) question) of
                  Inl e \<Rightarrow> Inl e
                | Inr response \<Rightarrow> Inr (response_text response))))"

text \<open>
  \<open>get_ai_response\<close>: \<open>model\<close> is \<open>None\<close> when no client was set up. The handler
  \<open>except Exception\<close> takes every exception of the \<open>try\<close> block.
\<close>

definition get_ai_response ::
  "(string \<Rightarrow> py_exception + llm_response) option
     \<Rightarrow> (string \<Rightarrow> py_exception + string list) option \<Rightarrow> string \<Rightarrow> string" where
  "get_ai_response model retriever question =
     (case model of
        None \<Rightarrow> ''AI service is not available. Please check your API keys and dependencies.''
      | Some invoke \<Rightarrow>
          (case ai_response_try invoke retriever question of
             Inl e \<Rightarrow>
               ''I apologize, but I'' @ [CHR 0x27] @
               ''m having trouble processing your question. Please try again.''
           | Inr text \<Rightarrow> text))"

section \<open>The routes (app.py)\<close>

text \<open>
  What the module holds once it is loaded: whether \<open>database\<close> could be imported, the
  two library functions the store is called with, and the client and retriever that
  \<open>setup_ai_components\<close> returned.
\<close>

record env =
  DATABASE_AVAILABLE :: bool
  env_sha256 :: "string \<Rightarrow> string"
  env_json_loads :: "string \<Rightarrow> py_exception + json"
  env_model :: "(string \<Rightarrow> py_exception + llm_response) option"
  env_retriever :: "(string \<Rightarrow> py_exception + string list) option"

text \<open>
  Flask's \<open>session\<close>, the signed cookie: a dictionary with the four keys the routes use.
  A field is \<open>None\<close> when its key is absent. \<open>username\<close> and \<open>full_name\<close> can be
  present with the value \<open>None\<close> (a form without the field, with no database).
\<close>

record cookie =
  ck_user_id :: "nat option"
  ck_username :: "string option option"
  ck_full_name :: "string option option"
  ck_session_id :: "string option"

definition empty_cookie :: cookie where
  "empty_cookie = \<lparr>ck_user_id = None, ck_username = None, ck_full_name = None,
     ck_session_id = None\<rparr>"

record app_state =
  db :: database
  session :: cookie

datatype http_method = GET | POST

text \<open>
  A response: a rendered template with its \<open>error\<close> argument, a redirect to a route,
  a JSON body with its status, a \<open>400 Bad Request\<close> raised by \<open>get_json\<close>, or the
  \<open>500\<close> that Flask makes of an exception no handler took.
\<close>

datatype response =
  Render string "string option"
| Redirect string
| Jsonify nat json
| BadRequest
| ServerError py_exception

text \<open>
  \<open>request.form\<close> is the list of the submitted fields; \<open>request.form.get(name)\<close>
  is the first value of that name, \<open>None\<close> when there is none.
\<close>

definition signup ::
  "env \<Rightarrow> app_state \<Rightarrow> nat \<Rightarrow> string \<Rightarrow> http_method \<Rightarrow> (string \<times> string) list
     \<Rightarrow> app_state \<times> response" where
  "signup env st now uuid4 method form =
     (if method = POST then
        let username = map_of form ''username'';
            email = map_of form ''email'';
            password = map_of form ''password'';
            full_name = (case map_of form ''full_name'' of None \<Rightarrow> [] | Some v \<Rightarrow> v)
        in
        if DATABASE_AVAILABLE env then
          (case create_user (env_sha256 env) (db st) now uuid4 username email password
                  full_name [] of
             (db1, Inl e) \<Rightarrow> (st\<lparr>db := db1\<rparr>, ServerError e)
           | (db1, Inr None) \<Rightarrow>
               (st\<lparr>db := db1\<rparr>,
                Render ''signup.html'' (Some ''Username or email already exists''))
           | (db1, Inr (Some user_id)) \<Rightarrow>
               if user_id \<noteq> 0 then
                 (st\<lparr>db := db1,
                     session := (session st)\<lparr>ck_user_id := Some user_id,
                       ck_username := Some username, ck_full_name := Some (Some full_name)\<rparr>\<rparr>,
                  Redirect ''dashboard'')
               else
                 (st\<lparr>db := db1\<rparr>,
                  Render ''signup.html'' (Some ''Username or email already exists'')))
        else
          (st\<lparr>session := (session st)\<lparr>ck_user_id := Some 1, ck_username := Some username,
                ck_full_name := Some (Some full_name)\<rparr>\<rparr>,
           Redirect ''dashboard'')
      else (st, Render ''signup.html'' None))"

text \<open>
  \<open>login\<close>: \<open>user.get('full_name') or user.get('username')\<close> takes the username when
  the full name is empty. The three cookie fields are set before the session is looked
  up, so they stay set if \<open>create_session\<close> raises.
\<close>

definition login ::
  "env \<Rightarrow> app_state \<Rightarrow> nat \<Rightarrow> string \<Rightarrow> http_method \<Rightarrow> (string \<times> string) list
     \<Rightarrow> app_state \<times> response" where
  "login env st now uuid4 method form =
     (if method = POST then
        let username = map_of form ''username'';
            password = map_of form ''password''
        in
        if DATABASE_AVAILABLE env then
          (case verify_user (env_sha256 env) (env_json_loads env) (db st) username password of
             Inl e \<Rightarrow> (st, ServerError e)
           | Inr None \<Rightarrow>
               (st, Render ''login.html'' (Some ''Invalid username or password''))
           | Inr (Some user) \<Rightarrow>
               let session1 = (session st)\<lparr>ck_user_id := Some (usr_id user),
                     ck_username := Some (Some (usr_username user)),
                     ck_full_name := Some (Some (if usr_full_name user \<noteq> []
                        then usr_full_name user else usr_username user))\<rparr>;
                   user_sessions = get_user_sessions (db st) (usr_id user)
               in
               (case user_sessions of
                  first # rest \<Rightarrow>
                    (st\<lparr>session := session1\<lparr>ck_session_id := Some (sd_session_id first)\<rparr>\<rparr>,
                     Redirect ''dashboard'')
                | [] \<Rightarrow>
                    (case create_session (db st) now uuid4 (usr_id user)
                            ''Career Counseling Session'' of
                       Inl e \<Rightarrow> (st\<lparr>session := session1\<rparr>, ServerError e)
                     | Inr (db1, session_id) \<Rightarrow>
                         (st\<lparr>db := db1,
                             session := session1\<lparr>ck_session_id := Some session_id\<rparr>\<rparr>,
                          Redirect ''dashboard''))))
        else
          (st\<lparr>session := (session st)\<lparr>ck_user_id := Some 1, ck_username := Some username,
                ck_full_name := Some username, ck_session_id := Some ''demo-session''\<rparr>\<rparr>,
           Redirect ''dashboard'')
      else (st, Render ''login.html'' None))"

definition logout :: "app_state \<Rightarrow> app_state \<times> response" where
  "logout st = (st\<lparr>session := empty_cookie\<rparr>, Redirect ''landing'')"

text \<open>
  \<open>chat\<close>, the page route: it gives the cookie a session id when it has none.
\<close>

definition chat :: "env \<Rightarrow> app_state \<Rightarrow> nat \<Rightarrow> string \<Rightarrow> app_state \<times> response" where
  "chat env st now uuid4 =
     (case ck_user_id (session st) of
        None \<Rightarrow> (st, Redirect ''login'')
      | Some user_id \<Rightarrow>
          (case ck_session_id (session st) of
             Some session_id \<Rightarrow> (st, Render ''chat.html'' None)
           | None \<Rightarrow>
               if DATABASE_AVAILABLE env then
                 (case create_session (db st) now uuid4 user_id ''Career Counseling Session'' of
                    Inl e \<Rightarrow> (st, ServerError e)
                  | Inr (db1, session_id) \<Rightarrow>
                      (st\<lparr>db := db1, session := (session st)\<lparr>ck_session_id := Some session_id\<rparr>\<rparr>,
                       Render ''chat.html'' None))
               else
                 (st\<lparr>session := (session st)\<lparr>ck_session_id := Some ''demo-session''\<rparr>\<rparr>,
                  Render ''chat.html'' None)))"

text \<open>
  \<open>api_chat\<close>. \<open>body\<close> is the request body as \<open>get_json(force=True)\<close> parses it,
  \<open>None\<close> when it is not JSON, which raises \<open>400 Bad Request\<close>. \<open>data.get\<close> exists
  on an object only and \<open>strip\<close> on a text only; anything else raises
  \<open>AttributeError\<close>. \<open>now_user\<close> and \<open>now_assistant\<close> are the clock at the two
  calls of \<open>save_message\<close>.
\<close>

definition api_chat ::
  "env \<Rightarrow> app_state \<Rightarrow> nat \<Rightarrow> nat \<Rightarrow> json option \<Rightarrow> app_state \<times> response" where
  "api_chat env st now_user now_assistant body =
     (case ck_user_id (session st) of
        None \<Rightarrow> (st, Jsonify 401 (JObj [(''error'', JStr ''Not authenticated'')]))
      | Some user_id \<Rightarrow>
          (case body of
             None \<Rightarrow> (st, BadRequest)
           | Some (JObj data) \<Rightarrow>
               (case dict_get data ''message'' (JStr []) of
                  JStr message \<Rightarrow>
                    let user_message = strip message in
                    if user_message = [] then
                      (st, Jsonify 400 (JObj [(''error'', JStr ''Message is empty'')]))
                    else
                      let session_id = ck_session_id (session st);
                          db1 = (if DATABASE_AVAILABLE env
                                 then save_message (db st) now_user session_id user_id
                                        ''user'' user_message
                                 else db st);
                          ai_response = get_ai_response (env_model env) (env_retriever env)
                                          user_message;
                          db2 = (if DATABASE_AVAILABLE env
                                 then save_message db1 now_assistant session_id user_id
                                        ''assistant'' ai_response
                                 else db1)
                      in
                      (st\<lparr>db := db2\<rparr>,
                       Jsonify 200 (JObj [(''response'', JStr ai_response),
                         (''session_id'',
                          (case session_id of None \<Rightarrow> JNull | Some sid \<Rightarrow> JStr sid))]))
                | _ \<Rightarrow> (st, ServerError AttributeError))
           | Some _ \<Rightarrow> (st, ServerError AttributeError)))"

section \<open>Properties of the persistence store\<close>

subsection \<open>Looking rows up\<close>

lemma find_append_last:
  "find P xs = None \<Longrightarrow> find P (xs @ [x]) = (if P x then Some x else None)"
  by (induction xs) (auto split: if_splits)

lemma find_None_username:
  "username \<notin> set (map u_username rows) \<Longrightarrow>
     find (\<lambda>r. u_username r = username \<and> Q r) rows = None"
  by (induction rows) auto

lemma next_rowid_pos: "0 < next_rowid seq ids"
  by (simp add: next_rowid_def)

subsection \<open>Creating and verifying a user\<close>

text \<open>
  Claim C1. For a username and an email that no stored user has, and any password, full
  name and phone number, \<open>create_user\<close> returns a positive user id, and \<open>verify_user\<close>
  with the same username and password then returns the created user, not \<open>None\<close>.
  The token that \<open>uuid.uuid4()\<close> draws for the default session is one that no stored
  session has.
\<close>

theorem create_user_then_verify_user:
  assumes "username \<notin> set (map u_username (users s))"
    and "email \<notin> set (map u_email (users s))"
    and "uuid4 \<notin> set (map ss_session_id (chat_sessions s))"
  shows "\<exists>s' user_id.
           create_user sha256 s now uuid4 (Some username) (Some email) (Some password)
             full_name phone_number = (s', Inr (Some user_id))
         \<and> 0 < user_id
         \<and> verify_user sha256 json_loads s' (Some username) (Some password) =
             Inr (Some \<lparr>usr_id = user_id, usr_username = username, usr_email = email,
               usr_full_name = full_name, usr_phone_number = phone_number,
               usr_educational_background = None, usr_interests = JArr []\<rparr>)"
proof -
  let ?matches = "\<lambda>r. u_username r = username \<and> u_password_hash r = sha256 password"
  let ?row = "\<lparr>u_id = next_rowid (users_seq s) (map u_id (users s)), u_username = username,
      u_email = email, u_password_hash = sha256 password, u_full_name = full_name,
      u_phone_number = phone_number, u_educational_background = None, u_interests = None,
      u_created_at = now\<rparr>"
  have "find ?matches (users s) = None"
    using assms(1) by (rule find_None_username)
  then have found: "find ?matches (users s @ [?row]) = Some ?row"
    by (simp add: find_append_last)
  show ?thesis
    using assms found
    by (simp add: create_user_def insert_user_def create_session_def verify_user_def Let_def
        user_dict_def next_rowid_pos)
qed

text \<open>
  An instance. A store that holds the user bob: alice signs up with a new email and gets the id 2, and her credentials then verify.
\<close>

theorem create_user_then_verify_user_witness:
  "''alice'' \<notin> set (map u_username (users
      \<lparr>users = [\<lparr>u_id = 1, u_username = ''bob'', u_email = ''b@x.com'',
                 u_password_hash = ''sha256:secret'', u_full_name = ''Bob'',
                 u_phone_number = [], u_educational_background = None,
                 u_interests = None, u_created_at = 50\<rparr>],
       users_seq = 1,
       chat_sessions = [\<lparr>ss_session_id = ''uuid-0'', ss_user_id = 1,
                 ss_session_name = ''Career Counseling Session'',
                 ss_created_at = 50, ss_updated_at = 50\<rparr>],
       chat_messages = [], chat_messages_seq = 0\<rparr>))
   \<and> create_user ((@) ''sha256:'')
      \<lparr>users = [\<lparr>u_id = 1, u_username = ''bob'', u_email = ''b@x.com'',
                 u_password_hash = ''sha256:secret'', u_full_name = ''Bob'',
                 u_phone_number = [], u_educational_background = None,
                 u_interests = None, u_created_at = 50\<rparr>],
       users_seq = 1,
       chat_sessions = [\<lparr>ss_session_id = ''uuid-0'', ss_user_id = 1,
                 ss_session_name = ''Career Counseling Session'',
                 ss_created_at = 50, ss_updated_at = 50\<rparr>],
       chat_messages = [], chat_messages_seq = 0\<rparr>
      100 ''uuid-1'' (Some ''alice'') (Some ''a@x.com'') (Some ''pw'') ''Alice'' ''0300''
     = (\<lparr>users = [\<lparr>u_id = 1, u_username = ''bob'', u_email = ''b@x.com'',
                 u_password_hash = ''sha256:secret'', u_full_name = ''Bob'',
                 u_phone_number = [], u_educational_background = None,
                 u_interests = None, u_created_at = 50\<rparr>,
                \<lparr>u_id = 2, u_username = ''alice'', u_email = ''a@x.com'',
                 u_password_hash = ''sha256:pw'', u_full_name = ''Alice'',
                 u_phone_number = ''0300'', u_educational_background = None,
                 u_interests = None, u_created_at = 100\<rparr>],
       users_seq = 2,
       chat_sessions = [\<lparr>ss_session_id = ''uuid-0'', ss_user_id = 1,
                 ss_session_name = ''Career Counseling Session'',
                 ss_created_at = 50, ss_updated_at = 50\<rparr>,
                \<lparr>ss_session_id = ''uuid-1'', ss_user_id = 2,
                 ss_session_name = ''Career Counseling Session'',
                 ss_created_at = 100, ss_updated_at = 100\<rparr>],
       chat_messages = [], chat_messages_seq = 0\<rparr>, Inr (Some 2))
   \<and> verify_user ((@) ''sha256:'') (Inl \<circ> OtherException)
      \<lparr>users = [\<lparr>u_id = 1, u_username = ''bob'', u_email = ''b@x.com'',
                 u_password_hash = ''sha256:secret'', u_full_name = ''Bob'',
                 u_phone_number = [], u_educational_background = None,
                 u_interests = None, u_created_at = 50\<rparr>,
                \<lparr>u_id = 2, u_username = ''alice'', u_email = ''a@x.com'',
                 u_password_hash = ''sha256:pw'', u_full_name = ''Alice'',
                 u_phone_number = ''0300'', u_educational_background = None,
                 u_interests = None, u_created_at = 100\<rparr>],
       users_seq = 2,
       chat_sessions = [\<lparr>ss_session_id = ''uuid-0'', ss_user_id = 1,
                 ss_session_name = ''Career Counseling Session'',
                 ss_created_at = 50, ss_updated_at = 50\<rparr>,
                \<lparr>ss_session_id = ''uuid-1'', ss_user_id = 2,
                 ss_session_name = ''Career Counseling Session'',
                 ss_created_at = 100, ss_updated_at = 100\<rparr>],
       chat_messages = [], chat_messages_seq = 0\<rparr>
      (Some ''alice'') (Some ''pw'')
     = Inr (Some \<lparr>usr_id = 2, usr_username = ''alice'', usr_email = ''a@x.com'',
               usr_full_name = ''Alice'', usr_phone_number = ''0300'',
               usr_educational_background = None, usr_interests = JArr []\<rparr>)"
  (is "?fresh \<and> ?created \<and> ?verified")
proof -
  let ?s = "\<lparr>users = [\<lparr>u_id = 1, u_username = ''bob'', u_email = ''b@x.com'',
                 u_password_hash = ''sha256:secret'', u_full_name = ''Bob'',
                 u_phone_number = [], u_educational_background = None,
                 u_interests = None, u_created_at = 50\<rparr>],
       users_seq = 1,
       chat_sessions = [\<lparr>ss_session_id = ''uuid-0'', ss_user_id = 1,
                 ss_session_name = ''Career Counseling Session'',
                 ss_created_at = 50, ss_updated_at = 50\<rparr>],
       chat_messages = [], chat_messages_seq = 0\<rparr>"
  have fresh: "''alice'' \<notin> set (map u_username (users ?s))"
    and email: "''a@x.com'' \<notin> set (map u_email (users ?s))"
    and token: "''uuid-1'' \<notin> set (map ss_session_id (chat_sessions ?s))"
    by simp_all
  have created: ?created
    by (simp add: create_user_def insert_user_def create_session_def next_rowid_def Let_def)
  from create_user_then_verify_user [OF fresh email token, of "(@) ''sha256:''" 100 "''pw''"
      "''Alice''" "''0300''" "Inl \<circ> OtherException"]
  have ?verified unfolding created by simp
  with fresh created show ?thesis by blast
qed

text \<open>
  Claim C4. When the username or the email is one a stored user already has,
  \<open>create_user\<close> returns \<open>None\<close>, raises nothing, and leaves the whole database, and
  so the stored users, as it was.
\<close>

theorem create_user_duplicate:
  assumes "username \<in> Some ` set (map u_username (users s))
         \<or> email \<in> Some ` set (map u_email (users s))"
  shows "create_user sha256 s now uuid4 username email (Some password) full_name phone_number
         = (s, Inr None)"
  using assms
  by (auto simp: create_user_def insert_user_def split: option.splits)

text \<open>
  An instance. A store that holds the user bob: a second signup under the name bob returns \<open>None\<close> and changes nothing.
\<close>

theorem create_user_duplicate_witness:
  "Some ''bob'' \<in> Some ` set (map u_username (users
      \<lparr>users = [\<lparr>u_id = 1, u_username = ''bob'', u_email = ''b@x.com'',
                 u_password_hash = ''sha256:secret'', u_full_name = ''Bob'',
                 u_phone_number = [], u_educational_background = None,
                 u_interests = None, u_created_at = 50\<rparr>],
       users_seq = 1, chat_sessions = [], chat_messages = [], chat_messages_seq = 0\<rparr>))
   \<and> create_user ((@) ''sha256:'')
      \<lparr>users = [\<lparr>u_id = 1, u_username = ''bob'', u_email = ''b@x.com'',
                 u_password_hash = ''sha256:secret'', u_full_name = ''Bob'',
                 u_phone_number = [], u_educational_background = None,
                 u_interests = None, u_created_at = 50\<rparr>],
       users_seq = 1, chat_sessions = [], chat_messages = [], chat_messages_seq = 0\<rparr>
      100 ''uuid-1'' (Some ''bob'') (Some ''robert@x.com'') (Some ''pw'') ''Robert'' []
     = (\<lparr>users = [\<lparr>u_id = 1, u_username = ''bob'', u_email = ''b@x.com'',
                 u_password_hash = ''sha256:secret'', u_full_name = ''Bob'',
                 u_phone_number = [], u_educational_background = None,
                 u_interests = None, u_created_at = 50\<rparr>],
       users_seq = 1, chat_sessions = [], chat_messages = [], chat_messages_seq = 0\<rparr>, Inr None)"
  (is "?duplicate \<and> ?refused")
proof -
  have duplicate: ?duplicate by simp
  then have ?refused by (intro create_user_duplicate disjI1)
  with duplicate show ?thesis by blast
qed

subsection \<open>Chat history\<close>

lemma insort_key_snoc:
  "f a \<le> f x \<Longrightarrow> insort_key f a (zs @ [x]) = insort_key f a zs @ [x]"
  by (induction zs) auto

lemma foldr_insort_key_snoc:
  "\<forall>y \<in> set xs. f y \<le> f x \<Longrightarrow>
     foldr (insort_key f) xs (ys @ [x]) = foldr (insort_key f) xs ys @ [x]"
  by (induction xs) (auto simp: insort_key_snoc)

lemma sort_key_snoc:
  "\<forall>y \<in> set xs. f y \<le> f x \<Longrightarrow> sort_key f (xs @ [x]) = sort_key f xs @ [x]"
  using foldr_insort_key_snoc [of xs f x "[]"] by (simp add: sort_key_def)

text \<open>
  Claim C2. After \<open>save_message\<close> for a session id, user id, role and text,
  \<open>get_chat_history\<close> for that session and user is the history it returned before
  followed by the new message, with its role and text: the message comes after every
  message saved before. The clock has not gone back: no stored message of that session
  and user is stamped later than the clock reads now.
\<close>

theorem save_message_then_get_chat_history:
  assumes "\<forall>m \<in> set (chat_messages s).
             mg_session_id m = Some session_id \<and> mg_user_id m = user_id \<longrightarrow> mg_timestamp m \<le> now"
  shows "get_chat_history (save_message s now (Some session_id) user_id message_type message_text)
           (Some session_id) user_id
         = get_chat_history s (Some session_id) user_id
           @ [\<lparr>md_type = message_type, md_text = message_text, md_timestamp = now\<rparr>]"
proof -
  let ?keep = "\<lambda>m. sql_eq (mg_session_id m) (Some session_id) \<and> mg_user_id m = user_id"
  have older: "\<forall>m \<in> set (filter ?keep (chat_messages s)). mg_timestamp m \<le> now"
  proof
    fix m assume "m \<in> set (filter ?keep (chat_messages s))"
    then have "m \<in> set (chat_messages s)" and "?keep m" by auto
    moreover from \<open>?keep m\<close> have "mg_session_id m = Some session_id"
      by (cases "mg_session_id m") auto
    ultimately show "mg_timestamp m \<le> now" using assms by auto
  qed
  show ?thesis
    using sort_key_snoc [of "filter ?keep (chat_messages s)" mg_timestamp
        "\<lparr>mg_id = next_rowid (chat_messages_seq s) (map mg_id (chat_messages s)),
          mg_session_id = Some session_id, mg_user_id = user_id,
          mg_message_type = message_type, mg_message_text = message_text,
          mg_timestamp = now\<rparr>"] older
    by (simp add: get_chat_history_def chat_history_rows_def save_message_def
        order_by_asc_def Let_def)
qed


text \<open>
  An instance. Session A of user 1 holds one message of second 100; the answer saved within the same second comes after it.
\<close>

theorem save_message_then_get_chat_history_witness:
  "get_chat_history
       (save_message
      \<lparr>users = [], users_seq = 0, chat_sessions = [],
       chat_messages =
          [\<lparr>mg_id = 1, mg_session_id = Some ''A'', mg_user_id = 1,
            mg_message_type = ''user'', mg_message_text = ''hello'', mg_timestamp = 100\<rparr>],
       chat_messages_seq = 1\<rparr>
          100 (Some ''A'') 1 ''assistant'' ''welcome'')
       (Some ''A'') 1
     = [\<lparr>md_type = ''user'', md_text = ''hello'', md_timestamp = 100\<rparr>,
        \<lparr>md_type = ''assistant'', md_text = ''welcome'', md_timestamp = 100\<rparr>]"
proof -
  have clock: "\<forall>m \<in> set (chat_messages
      \<lparr>users = [], users_seq = 0, chat_sessions = [],
       chat_messages =
          [\<lparr>mg_id = 1, mg_session_id = Some ''A'', mg_user_id = 1,
            mg_message_type = ''user'', mg_message_text = ''hello'', mg_timestamp = 100\<rparr>],
       chat_messages_seq = 1\<rparr>).
        mg_session_id m = Some ''A'' \<and> mg_user_id m = 1 \<longrightarrow> mg_timestamp m \<le> 100"
    by simp
  from save_message_then_get_chat_history [OF clock, of "''assistant''" "''welcome''"]
  show ?thesis
    by (simp add: get_chat_history_def chat_history_rows_def order_by_asc_def)
qed

subsection \<open>The sessions of a user\<close>

lemma in_set_not_Nil: "x \<in> set xs \<Longrightarrow> xs \<noteq> []"
  by auto

lemma sorted_hd_le:
  "sorted (map f zs) \<Longrightarrow> zs \<noteq> [] \<Longrightarrow> \<forall>y \<in> set zs. f (hd zs) \<le> f y"
  by (cases zs) auto

lemma hd_sort_key_least:
  assumes "xs \<noteq> []"
  shows "sort_key f xs \<noteq> [] \<and> hd (sort_key f xs) \<in> set xs
         \<and> (\<forall>y \<in> set xs. f (hd (sort_key f xs)) \<le> f y)"
proof -
  have ne: "sort_key f xs \<noteq> []"
    using assms by (metis length_sort length_0_conv)
  have "sorted (map f (sort_key f xs))" by simp
  from sorted_hd_le [OF this ne] have "\<forall>y \<in> set xs. f (hd (sort_key f xs)) \<le> f y"
    by simp
  moreover have "hd (sort_key f xs) \<in> set xs"
    using hd_in_set [OF ne] by simp
  ultimately show ?thesis using ne by simp
qed

lemma sorted_desc_key:
  "sorted (map (\<lambda>r. - int (key r)) rows) \<Longrightarrow> sorted (rev (map key rows))"
  by (simp add: sorted_wrt_rev sorted_wrt_map)

text \<open>
  Claim C3, as amended. \<open>get_user_sessions\<close> returns the sessions of the user, by
  \<open>updated_at\<close> descending. After \<open>save_message\<close> on one of the user's sessions, that
  session is the first of the list when every other session of the user was last updated
  strictly before the second the clock reads now.
\<close>

theorem get_user_sessions_order:
  "sorted (rev (map sd_updated_at (get_user_sessions s user_id)))
   \<and> set (map sd_session_id (get_user_sessions s user_id))
       = ss_session_id ` {r \<in> set (chat_sessions s). ss_user_id r = user_id}
   \<and> ((\<exists>r \<in> set (chat_sessions s). ss_session_id r = session_id \<and> ss_user_id r = user_id)
        \<and> (\<forall>r \<in> set (chat_sessions s).
              ss_user_id r = user_id \<and> ss_session_id r \<noteq> session_id \<longrightarrow> ss_updated_at r < now)
      \<longrightarrow> (\<exists>first rest.
             get_user_sessions
               (save_message s now (Some session_id) author message_type message_text) user_id
               = first # rest
             \<and> sd_session_id first = session_id))"
proof (intro conjI impI)
  let ?rows = "filter (\<lambda>r. ss_user_id r = user_id) (chat_sessions s)"
  have "sorted (map (\<lambda>r. - int (ss_updated_at r)) (order_by_desc ss_updated_at ?rows))"
    by (simp add: order_by_desc_def)
  from sorted_desc_key [OF this]
  show "sorted (rev (map sd_updated_at (get_user_sessions s user_id)))"
    by (simp add: get_user_sessions_def comp_def)
next
  show "set (map sd_session_id (get_user_sessions s user_id))
       = ss_session_id ` {r \<in> set (chat_sessions s). ss_user_id r = user_id}"
    by (auto simp: get_user_sessions_def order_by_desc_def)
next
  assume hyp: "(\<exists>r \<in> set (chat_sessions s). ss_session_id r = session_id \<and> ss_user_id r = user_id)
        \<and> (\<forall>r \<in> set (chat_sessions s).
              ss_user_id r = user_id \<and> ss_session_id r \<noteq> session_id \<longrightarrow> ss_updated_at r < now)"
  let ?bump = "\<lambda>r. if sql_eq (Some (ss_session_id r)) (Some session_id)
                     then r\<lparr>ss_updated_at := now\<rparr> else r"
  let ?rows = "filter (\<lambda>r. ss_user_id r = user_id) (map ?bump (chat_sessions s))"
  let ?key = "\<lambda>r. - int (ss_updated_at r)"
  from hyp obtain r where r: "r \<in> set (chat_sessions s)" "ss_session_id r = session_id"
    "ss_user_id r = user_id" by blast
  then have in_rows: "?bump r \<in> set ?rows" by auto
  from hd_sort_key_least [OF in_set_not_Nil [OF in_rows], of ?key]
  have ne: "sort_key ?key ?rows \<noteq> []"
    and mem: "hd (sort_key ?key ?rows) \<in> set ?rows"
    and least: "\<forall>y \<in> set ?rows. ?key (hd (sort_key ?key ?rows)) \<le> ?key y"
    by blast+
  let ?h = "hd (sort_key ?key ?rows)"
  have "ss_updated_at (?bump r) = now" using r by simp
  with least in_rows have h_now: "now \<le> ss_updated_at ?h" by fastforce
  have "ss_session_id ?h = session_id"
  proof (rule ccontr)
    assume other: "ss_session_id ?h \<noteq> session_id"
    from mem obtain r0 where r0: "r0 \<in> set (chat_sessions s)" "?h = ?bump r0"
      "ss_user_id (?bump r0) = user_id" by auto
    with other have "ss_session_id r0 \<noteq> session_id" by (auto split: if_splits)
    with r0 have "?h = r0" "ss_user_id r0 = user_id" by auto
    with hyp r0(1) \<open>ss_session_id r0 \<noteq> session_id\<close> have "ss_updated_at ?h < now" by auto
    with h_now show False by simp
  qed
  moreover have "get_user_sessions
      (save_message s now (Some session_id) author message_type message_text) user_id
      = map (\<lambda>r. \<lparr>sd_session_id = ss_session_id r, sd_session_name = ss_session_name r,
               sd_created_at = ss_created_at r, sd_updated_at = ss_updated_at r\<rparr>)
          (sort_key ?key ?rows)"
    by (simp add: get_user_sessions_def save_message_def order_by_desc_def Let_def)
  ultimately show "\<exists>first rest.
             get_user_sessions
               (save_message s now (Some session_id) author message_type message_text) user_id
               = first # rest
             \<and> sd_session_id first = session_id"
    using ne by (cases "sort_key ?key ?rows") auto
qed

text \<open>
  An instance. User 1 has the sessions A and B, last updated at 100 and 150; a message saved to A at 200 brings A to the front.
\<close>

theorem get_user_sessions_order_witness:
  "\<exists>first rest.
        get_user_sessions
          (save_message
      \<lparr>users = [], users_seq = 0,
       chat_sessions =
          [\<lparr>ss_session_id = ''A'', ss_user_id = 1,
            ss_session_name = ''Career Counseling Session'',
            ss_created_at = 100, ss_updated_at = 100\<rparr>,
           \<lparr>ss_session_id = ''B'', ss_user_id = 1,
            ss_session_name = ''Career Counseling Session'',
            ss_created_at = 150, ss_updated_at = 150\<rparr>],
       chat_messages = [], chat_messages_seq = 0\<rparr>
             200 (Some ''A'') 1 ''user'' ''a question'')
          1 = first # rest
        \<and> sd_session_id first = ''A''"
proof -
  have older: "(\<exists>r \<in> set (chat_sessions
      \<lparr>users = [], users_seq = 0,
       chat_sessions =
          [\<lparr>ss_session_id = ''A'', ss_user_id = 1,
            ss_session_name = ''Career Counseling Session'',
            ss_created_at = 100, ss_updated_at = 100\<rparr>,
           \<lparr>ss_session_id = ''B'', ss_user_id = 1,
            ss_session_name = ''Career Counseling Session'',
            ss_created_at = 150, ss_updated_at = 150\<rparr>],
       chat_messages = [], chat_messages_seq = 0\<rparr>).
        ss_session_id r = ''A'' \<and> ss_user_id r = 1)
    \<and> (\<forall>r \<in> set (chat_sessions
      \<lparr>users = [], users_seq = 0,
       chat_sessions =
          [\<lparr>ss_session_id = ''A'', ss_user_id = 1,
            ss_session_name = ''Career Counseling Session'',
            ss_created_at = 100, ss_updated_at = 100\<rparr>,
           \<lparr>ss_session_id = ''B'', ss_user_id = 1,
            ss_session_name = ''Career Counseling Session'',
            ss_created_at = 150, ss_updated_at = 150\<rparr>],
       chat_messages = [], chat_messages_seq = 0\<rparr>).
        ss_user_id r = 1 \<and> ss_session_id r \<noteq> ''A'' \<longrightarrow> ss_updated_at r < 200)"
    by simp
  from get_user_sessions_order [THEN conjunct2, THEN conjunct2, THEN mp, OF older]
  show ?thesis .
qed

text \<open>
  Claim C3 as stated fails on a tie. User 1, alice, has the sessions A and B: A is the
  session \<open>create_user\<close> made at second 100, B one \<open>create_session\<close> made at 150.
  A message is saved to A and, within the same second 200, another to B: both sessions
  carry \<open>updated_at = 200\<close>, and \<open>get_user_sessions\<close> still lists A before B, the
  session the last message went to.
\<close>

theorem save_message_tie_counterexample:
  "map sd_session_id
     (get_user_sessions
        (save_message
           (save_message
              \<lparr>users =
                 [\<lparr>u_id = 1, u_username = ''alice'', u_email = ''a@x.com'',
                   u_password_hash = ''sha256:pw'', u_full_name = ''Alice'',
                   u_phone_number = [], u_educational_background = None,
                   u_interests = None, u_created_at = 100\<rparr>],
               users_seq = 1,
               chat_sessions =
                 [\<lparr>ss_session_id = ''A'', ss_user_id = 1,
                   ss_session_name = ''Career Counseling Session'',
                   ss_created_at = 100, ss_updated_at = 100\<rparr>,
                  \<lparr>ss_session_id = ''B'', ss_user_id = 1,
                   ss_session_name = ''Career Counseling Session'',
                   ss_created_at = 150, ss_updated_at = 150\<rparr>],
               chat_messages = [], chat_messages_seq = 0\<rparr>
              200 (Some ''A'') 1 ''user'' ''first question'')
           200 (Some ''B'') 1 ''user'' ''second question'')
        1)
   = [''A'', ''B'']"
  by (simp add: get_user_sessions_def save_message_def order_by_desc_def Let_def)

section \<open>Properties of the routes\<close>

subsection \<open>Empty chat messages\<close>

lemma strip_whitespace: "\<forall>c \<in> set message. py_isspace c \<Longrightarrow> strip message = []"
proof -
  assume "\<forall>c \<in> set message. py_isspace c"
  then have leading: "dropWhile py_isspace message = []"
    by simp
  show ?thesis unfolding strip_def leading by simp
qed

text \<open>
  Claim C5. An authenticated request to \<open>api_chat\<close> whose \<open>message\<close> is absent, empty
  or made of whitespace only is answered with status 400 and the JSON body
  \<open>{"error": "Message is empty"}\<close>, and the state, with it the stored messages, is
  unchanged.
\<close>

theorem api_chat_empty_message:
  assumes "ck_user_id (session st) = Some user_id"
    and "dict_get data ''message'' (JStr []) = JStr message"
    and "\<forall>c \<in> set message. py_isspace c"
  shows "api_chat env st now_user now_assistant (Some (JObj data))
         = (st, Jsonify 400 (JObj [(''error'', JStr ''Message is empty'')]))"
  using assms(1,2) strip_whitespace [OF assms(3)]
  by (simp add: api_chat_def)

text \<open>
  An instance. A logged-in user posts a message made of a space, a tab and a line feed.
\<close>

theorem api_chat_empty_message_witness:
  "ck_user_id (session
      \<lparr>db = init_db,
       session = \<lparr>ck_user_id = Some 1, ck_username = Some (Some ''alice''),
         ck_full_name = Some (Some ''Alice''), ck_session_id = Some ''uuid-1''\<rparr>\<rparr>) = Some 1
   \<and> dict_get [(''message'', JStr [CHR 0x20, CHR 0x09, CHR 0x0A])] ''message'' (JStr [])
       = JStr [CHR 0x20, CHR 0x09, CHR 0x0A]
   \<and> list_all py_isspace [CHR 0x20, CHR 0x09, CHR 0x0A]
   \<and> api_chat
      \<lparr>DATABASE_AVAILABLE = True, env_sha256 = (@) ''sha256:'',
       env_json_loads = Inl \<circ> OtherException, env_model = None, env_retriever = None\<rparr>
      \<lparr>db = init_db,
       session = \<lparr>ck_user_id = Some 1, ck_username = Some (Some ''alice''),
         ck_full_name = Some (Some ''Alice''), ck_session_id = Some ''uuid-1''\<rparr>\<rparr>
      101 102 (Some (JObj [(''message'', JStr [CHR 0x20, CHR 0x09, CHR 0x0A])]))
     = (\<lparr>db = init_db,
       session = \<lparr>ck_user_id = Some 1, ck_username = Some (Some ''alice''),
         ck_full_name = Some (Some ''Alice''), ck_session_id = Some ''uuid-1''\<rparr>\<rparr>,
        Jsonify 400 (JObj [(''error'', JStr ''Message is empty'')]))"
  (is "?authenticated \<and> ?field \<and> ?blank \<and> ?rejected")
proof -
  have authenticated: ?authenticated by simp
  have field: ?field by (simp add: dict_get_def)
  have blank: ?blank by (simp add: py_isspace_def)
  then have "\<forall>c \<in> set [CHR 0x20, CHR 0x09, CHR 0x0A]. py_isspace c"
    by (simp only: list_all_iff)
  then have ?rejected by (rule api_chat_empty_message [OF authenticated field])
  with authenticated field blank show ?thesis by (intro conjI)
qed

subsection \<open>The answer generator\<close>

text \<open>
  Claim C6. \<open>get_ai_response\<close> returns a text for every question and raises nothing.
  Without a client it returns the fixed message that the service is not available. When
  the client raises, on the plain prompt or on the prompt with context, or when the
  retriever raises, it returns the fixed apology. In every case the result is one of
  these two texts or the text of a response that the client returned.
\<close>

theorem get_ai_response_total:
  "get_ai_response None retriever question
     = ''AI service is not available. Please check your API keys and dependencies.''
   \<and> (invoke (simple_prompt question) = Inl e \<longrightarrow>
        get_ai_response (Some invoke) None question
          = ''I apologize, but I'' @ [CHR 0x27] @
            ''m having trouble processing your question. Please try again.'')
   \<and> (failing_retrieve question = Inl e \<longrightarrow>
        get_ai_response (Some invoke) (Some failing_retrieve) question
          = ''I apologize, but I'' @ [CHR 0x27] @
            ''m having trouble processing your question. Please try again.'')
   \<and> (retrieve question = Inr docs
        \<and> invoke (rag_prompt (join_context docs) question) = Inl e \<longrightarrow>
        get_ai_response (Some invoke) (Some retrieve) question
          = ''I apologize, but I'' @ [CHR 0x27] @
            ''m having trouble processing your question. Please try again.'')
   \<and> (get_ai_response model retriever question
         = ''AI service is not available. Please check your API keys and dependencies.''
      \<or> get_ai_response model retriever question
         = ''I apologize, but I'' @ [CHR 0x27] @
            ''m having trouble processing your question. Please try again.''
      \<or> (\<exists>invoke prompt response.
            model = Some invoke \<and> invoke prompt = Inr response
            \<and> get_ai_response model retriever question = response_text response))"
  by (auto simp: get_ai_response_def ai_response_try_def split: option.splits sum.splits)


text \<open>
  An instance. A client that raises a timeout, without a retriever, with a retriever that raises, and with one that returns two documents.
\<close>

theorem get_ai_response_total_witness:
  "get_ai_response None None ''What can I study?''
     = ''AI service is not available. Please check your API keys and dependencies.''
   \<and> get_ai_response (Some (\<lambda>prompt. Inl (OtherException ''timeout''))) None
       ''What can I study?''
     = ''I apologize, but I'' @ [CHR 0x27] @
         ''m having trouble processing your question. Please try again.''
   \<and> get_ai_response (Some (\<lambda>prompt. Inl (OtherException ''timeout'')))
       (Some (\<lambda>query. Inl (OtherException ''timeout''))) ''What can I study?''
     = ''I apologize, but I'' @ [CHR 0x27] @
         ''m having trouble processing your question. Please try again.''
   \<and> get_ai_response (Some (\<lambda>prompt. Inl (OtherException ''timeout'')))
       (Some (\<lambda>query. Inr [''Medicine'', ''Pharmacy''])) ''What can I study?''
     = ''I apologize, but I'' @ [CHR 0x27] @
         ''m having trouble processing your question. Please try again.''"
  using get_ai_response_total [of None "''What can I study?''"
      "\<lambda>prompt. Inl (OtherException ''timeout'')" "OtherException ''timeout''"
      "\<lambda>query. Inl (OtherException ''timeout'')"
      "\<lambda>query. Inr [''Medicine'', ''Pharmacy'']" "[''Medicine'', ''Pharmacy'']" None]
  by simp

subsection \<open>The cookie after signup and login\<close>

text \<open>
  Claim C8, as amended. After a login that succeeds, the cookie has the user id, the
  username, the full name and a chat session id set. After a signup that succeeds, it
  has the user id, the username and the full name set; \<open>signup\<close> leaves the chat
  session id as it was, absent in a fresh cookie. With the database available, the
  username and the full name in the cookie are texts.
\<close>

theorem signup_login_cookie:
  "(signup env st now uuid4 method form = (st', Redirect ''dashboard'') \<longrightarrow>
      ck_user_id (session st') \<noteq> None \<and> ck_username (session st') \<noteq> None
      \<and> ck_full_name (session st') \<noteq> None
      \<and> ck_session_id (session st') = ck_session_id (session st)
      \<and> (DATABASE_AVAILABLE env \<longrightarrow>
            (\<exists>username full_name.
               ck_username (session st') = Some (Some username)
               \<and> ck_full_name (session st') = Some (Some full_name))))
   \<and> (login env st now uuid4 method form = (st', Redirect ''dashboard'') \<longrightarrow>
      ck_user_id (session st') \<noteq> None \<and> ck_username (session st') \<noteq> None
      \<and> ck_full_name (session st') \<noteq> None
      \<and> ck_session_id (session st') \<noteq> None
      \<and> (DATABASE_AVAILABLE env \<longrightarrow>
            (\<exists>username full_name.
               ck_username (session st') = Some (Some username)
               \<and> ck_full_name (session st') = Some (Some full_name))))"
proof (rule conjI; rule impI)
  assume "signup env st now uuid4 method form = (st', Redirect ''dashboard'')"
  then show "ck_user_id (session st') \<noteq> None \<and> ck_username (session st') \<noteq> None
      \<and> ck_full_name (session st') \<noteq> None
      \<and> ck_session_id (session st') = ck_session_id (session st)
      \<and> (DATABASE_AVAILABLE env \<longrightarrow>
            (\<exists>username full_name.
               ck_username (session st') = Some (Some username)
               \<and> ck_full_name (session st') = Some (Some full_name)))"
    by (auto simp: signup_def create_user_def insert_user_def Let_def
        split: if_splits prod.splits sum.splits option.splits)
next
  assume "login env st now uuid4 method form = (st', Redirect ''dashboard'')"
  then show "ck_user_id (session st') \<noteq> None \<and> ck_username (session st') \<noteq> None
      \<and> ck_full_name (session st') \<noteq> None
      \<and> ck_session_id (session st') \<noteq> None
      \<and> (DATABASE_AVAILABLE env \<longrightarrow>
            (\<exists>username full_name.
               ck_username (session st') = Some (Some username)
               \<and> ck_full_name (session st') = Some (Some full_name)))"
    by (auto simp: login_def Let_def
        split: if_splits prod.splits sum.splits option.splits list.splits)
qed

text \<open>
  An instance. alice signs up on an empty database with a fresh cookie, and later logs in with a fresh cookie.
\<close>

theorem signup_login_cookie_witness:
  "signup
      \<lparr>DATABASE_AVAILABLE = True, env_sha256 = (@) ''sha256:'',
       env_json_loads = Inl \<circ> OtherException, env_model = None, env_retriever = None\<rparr>
      \<lparr>db = init_db, session = empty_cookie\<rparr> 100 ''uuid-1'' POST
      [(''username'', ''alice''), (''email'', ''a@x.com''), (''password'', ''pw''),
       (''full_name'', ''Alice'')]
     = (\<lparr>db = \<lparr>users = [\<lparr>u_id = 1, u_username = ''alice'', u_email = ''a@x.com'',
                 u_password_hash = ''sha256:pw'', u_full_name = ''Alice'',
                 u_phone_number = [], u_educational_background = None,
                 u_interests = None, u_created_at = 100\<rparr>],
          users_seq = 1,
          chat_sessions = [\<lparr>ss_session_id = ''uuid-1'', ss_user_id = 1,
                 ss_session_name = ''Career Counseling Session'',
                 ss_created_at = 100, ss_updated_at = 100\<rparr>],
          chat_messages = [], chat_messages_seq = 0\<rparr>,
         session = \<lparr>ck_user_id = Some 1, ck_username = Some (Some ''alice''),
           ck_full_name = Some (Some ''Alice''), ck_session_id = None\<rparr>\<rparr>,
        Redirect ''dashboard'')
   \<and> login
      \<lparr>DATABASE_AVAILABLE = True, env_sha256 = (@) ''sha256:'',
       env_json_loads = Inl \<circ> OtherException, env_model = None, env_retriever = None\<rparr>
      \<lparr>db = \<lparr>users = [\<lparr>u_id = 1, u_username = ''alice'', u_email = ''a@x.com'',
                 u_password_hash = ''sha256:pw'', u_full_name = ''Alice'',
                 u_phone_number = [], u_educational_background = None,
                 u_interests = None, u_created_at = 100\<rparr>],
          users_seq = 1,
          chat_sessions = [\<lparr>ss_session_id = ''uuid-1'', ss_user_id = 1,
                 ss_session_name = ''Career Counseling Session'',
                 ss_created_at = 100, ss_updated_at = 100\<rparr>],
          chat_messages = [], chat_messages_seq = 0\<rparr>,
       session = empty_cookie\<rparr> 200 ''uuid-2'' POST
      [(''username'', ''alice''), (''password'', ''pw'')]
     = (\<lparr>db = \<lparr>users = [\<lparr>u_id = 1, u_username = ''alice'', u_email = ''a@x.com'',
                 u_password_hash = ''sha256:pw'', u_full_name = ''Alice'',
                 u_phone_number = [], u_educational_background = None,
                 u_interests = None, u_created_at = 100\<rparr>],
          users_seq = 1,
          chat_sessions = [\<lparr>ss_session_id = ''uuid-1'', ss_user_id = 1,
                 ss_session_name = ''Career Counseling Session'',
                 ss_created_at = 100, ss_updated_at = 100\<rparr>],
          chat_messages = [], chat_messages_seq = 0\<rparr>,
         session = \<lparr>ck_user_id = Some 1, ck_username = Some (Some ''alice''),
           ck_full_name = Some (Some ''Alice''), ck_session_id = Some ''uuid-1''\<rparr>\<rparr>,
        Redirect ''dashboard'')
   \<and> ck_session_id (session
        \<lparr>db = \<lparr>users = [\<lparr>u_id = 1, u_username = ''alice'', u_email = ''a@x.com'',
                 u_password_hash = ''sha256:pw'', u_full_name = ''Alice'',
                 u_phone_number = [], u_educational_background = None,
                 u_interests = None, u_created_at = 100\<rparr>],
          users_seq = 1,
          chat_sessions = [\<lparr>ss_session_id = ''uuid-1'', ss_user_id = 1,
                 ss_session_name = ''Career Counseling Session'',
                 ss_created_at = 100, ss_updated_at = 100\<rparr>],
          chat_messages = [], chat_messages_seq = 0\<rparr>,
         session = \<lparr>ck_user_id = Some 1, ck_username = Some (Some ''alice''),
           ck_full_name = Some (Some ''Alice''), ck_session_id = None\<rparr>\<rparr>)
       = ck_session_id (session \<lparr>db = init_db, session = empty_cookie\<rparr>)
   \<and> ck_session_id (session
        \<lparr>db = \<lparr>users = [\<lparr>u_id = 1, u_username = ''alice'', u_email = ''a@x.com'',
                 u_password_hash = ''sha256:pw'', u_full_name = ''Alice'',
                 u_phone_number = [], u_educational_background = None,
                 u_interests = None, u_created_at = 100\<rparr>],
          users_seq = 1,
          chat_sessions = [\<lparr>ss_session_id = ''uuid-1'', ss_user_id = 1,
                 ss_session_name = ''Career Counseling Session'',
                 ss_created_at = 100, ss_updated_at = 100\<rparr>],
          chat_messages = [], chat_messages_seq = 0\<rparr>,
         session = \<lparr>ck_user_id = Some 1, ck_username = Some (Some ''alice''),
           ck_full_name = Some (Some ''Alice''), ck_session_id = Some ''uuid-1''\<rparr>\<rparr>)
       \<noteq> None"
  (is "?signed_up \<and> ?logged_in \<and> ?kept \<and> ?set")
proof -
  have signed_up: ?signed_up
    by (simp add: signup_def create_user_def insert_user_def create_session_def init_db_def
        empty_cookie_def next_rowid_def Let_def)
  have logged_in: ?logged_in
    by (simp add: login_def verify_user_def user_dict_def get_user_sessions_def
        order_by_desc_def empty_cookie_def Let_def)
  from signup_login_cookie [THEN conjunct1, THEN mp, OF signed_up] have ?kept by blast
  moreover
  from signup_login_cookie [THEN conjunct2, THEN mp, OF logged_in] have ?set by blast
  ultimately show ?thesis using signed_up logged_in by blast
qed

text \<open>
  Claim C8 as stated fails for signup. On an empty database and a fresh cookie, the signup
  of alice succeeds, and the cookie then holds the user id, the username and the full
  name, with no chat session id.
\<close>

theorem signup_no_session_id_counterexample:
  "snd (signup
          \<lparr>DATABASE_AVAILABLE = True, env_sha256 = (@) ''sha256:'',
           env_json_loads = Inl \<circ> OtherException, env_model = None, env_retriever = None\<rparr>
          \<lparr>db = init_db, session = empty_cookie\<rparr> 100 ''uuid-1'' POST
          [(''username'', ''alice''), (''email'', ''a@x.com''), (''password'', ''pw''),
           (''full_name'', ''Alice'')])
     = Redirect ''dashboard''
   \<and> session (fst (signup
          \<lparr>DATABASE_AVAILABLE = True, env_sha256 = (@) ''sha256:'',
           env_json_loads = Inl \<circ> OtherException, env_model = None, env_retriever = None\<rparr>
          \<lparr>db = init_db, session = empty_cookie\<rparr> 100 ''uuid-1'' POST
          [(''username'', ''alice''), (''email'', ''a@x.com''), (''password'', ''pw''),
           (''full_name'', ''Alice'')]))
     = \<lparr>ck_user_id = Some 1, ck_username = Some (Some ''alice''),
        ck_full_name = Some (Some ''Alice''), ck_session_id = None\<rparr>"
  by (simp add: signup_def create_user_def insert_user_def create_session_def init_db_def
      empty_cookie_def next_rowid_def Let_def)

subsection \<open>Messages and their sessions\<close>

text \<open>
  Claim C7 at a concrete run. alice signs up on an empty database and then posts the
  message \<open>hi\<close> to \<open>api_chat\<close>. The cookie has no chat session id, so the user
  message and the answer are both stored with the session id NULL, although the session
  that \<open>create_user\<close> made for her is in the session table.
\<close>

theorem api_chat_after_signup_null_session:
  "map mg_session_id (chat_messages (db (fst (api_chat
      \<lparr>DATABASE_AVAILABLE = True, env_sha256 = (@) ''sha256:'',
       env_json_loads = Inl \<circ> OtherException, env_model = None, env_retriever = None\<rparr>
      (fst (signup
          \<lparr>DATABASE_AVAILABLE = True, env_sha256 = (@) ''sha256:'',
           env_json_loads = Inl \<circ> OtherException, env_model = None, env_retriever = None\<rparr>
          \<lparr>db = init_db, session = empty_cookie\<rparr> 100 ''uuid-1'' POST
          [(''username'', ''alice''), (''email'', ''a@x.com''), (''password'', ''pw''),
           (''full_name'', ''Alice'')]))
      101 101 (Some (JObj [(''message'', JStr ''hi'')]))))))
   = [None, None]
   \<and> map ss_session_id (chat_sessions (db (fst (api_chat
      \<lparr>DATABASE_AVAILABLE = True, env_sha256 = (@) ''sha256:'',
       env_json_loads = Inl \<circ> OtherException, env_model = None, env_retriever = None\<rparr>
      (fst (signup
          \<lparr>DATABASE_AVAILABLE = True, env_sha256 = (@) ''sha256:'',
           env_json_loads = Inl \<circ> OtherException, env_model = None, env_retriever = None\<rparr>
          \<lparr>db = init_db, session = empty_cookie\<rparr> 100 ''uuid-1'' POST
          [(''username'', ''alice''), (''email'', ''a@x.com''), (''password'', ''pw''),
           (''full_name'', ''Alice'')]))
      101 101 (Some (JObj [(''message'', JStr ''hi'')]))))))
   = [''uuid-1'']"
  by (simp add: signup_def create_user_def insert_user_def create_session_def init_db_def
      empty_cookie_def next_rowid_def Let_def api_chat_def dict_get_def strip_def
      py_isspace_def save_message_def get_ai_response_def)

subsection \<open>Interests\<close>

lemma find_map_same:
  "(\<And>r. P (g r) = P r) \<Longrightarrow> find P (map g rows) = map_option g (find P rows)"
  by (induction rows) auto

text \<open>
  Claim C9. For a stored user and a list of interest tags, empty or not,
  \<open>update_user_profile\<close> with that list and then \<open>get_user_by_id\<close> return the same
  list as the user's interests, and so does \<open>verify_user\<close> with credentials that
  verified this user before. \<open>json.dumps\<close> and \<open>json.loads\<close> are the library's: the
  text that \<open>json.dumps\<close> makes of the list is not empty and \<open>json.loads\<close> reads
  it back as the list.
\<close>

theorem update_user_profile_roundtrip:
  assumes "user_id \<in> set (map u_id (users s))"
    and "json_dumps (JArr (map JStr tags)) \<noteq> []"
    and "json_loads (json_dumps (JArr (map JStr tags))) = Inr (JArr (map JStr tags))"
  shows "(\<exists>u. get_user_by_id json_loads
                (update_user_profile json_dumps s user_id background (JArr (map JStr tags)))
                user_id = Inr (Some u)
              \<and> usr_id u = user_id \<and> usr_interests u = JArr (map JStr tags))
       \<and> (\<forall>u0. verify_user sha256 json_loads s username password = Inr (Some u0)
                \<and> usr_id u0 = user_id \<longrightarrow>
             (\<exists>u. verify_user sha256 json_loads
                     (update_user_profile json_dumps s user_id background (JArr (map JStr tags)))
                     username password = Inr (Some u)
                   \<and> usr_id u = user_id \<and> usr_interests u = JArr (map JStr tags)))"
proof (intro conjI allI impI)
  let ?set = "\<lambda>r. if u_id r = user_id
                   then r\<lparr>u_educational_background := Some background,
                          u_interests := Some (json_dumps (JArr (map JStr tags)))\<rparr>
                   else r"
  have dict: "\<And>r. u_id r = user_id \<Longrightarrow>
      \<exists>u. user_dict json_loads (?set r) = Inr u \<and> usr_id u = user_id
          \<and> usr_interests u = JArr (map JStr tags)"
    using assms(2,3) by (simp add: user_dict_def)
  {
    have "find (\<lambda>r. u_id r = user_id) (map ?set (users s))
          = map_option ?set (find (\<lambda>r. u_id r = user_id) (users s))"
      by (rule find_map_same) simp
    moreover from assms(1) obtain r where "find (\<lambda>r. u_id r = user_id) (users s) = Some r"
      and "u_id r = user_id"
      by (cases "find (\<lambda>r. u_id r = user_id) (users s)")
         (auto simp: find_None_iff dest: find_Some_iff [THEN iffD1])
    ultimately have "find (\<lambda>r. u_id r = user_id) (map ?set (users s)) = Some (?set r)"
      by simp
    with dict [OF \<open>u_id r = user_id\<close>]
    show "\<exists>u. get_user_by_id json_loads
                (update_user_profile json_dumps s user_id background (JArr (map JStr tags)))
                user_id = Inr (Some u)
              \<and> usr_id u = user_id \<and> usr_interests u = JArr (map JStr tags)"
      by (auto simp: get_user_by_id_def update_user_profile_def)
  }
  fix u0
  assume before: "verify_user sha256 json_loads s username password = Inr (Some u0)
                \<and> usr_id u0 = user_id"
  then obtain pw where pw: "password = Some pw"
    by (cases password) (auto simp: verify_user_def)
  let ?matches = "\<lambda>r. sql_eq (Some (u_username r)) username \<and> u_password_hash r = sha256 pw"
  from before pw obtain r where r: "find ?matches (users s) = Some r"
    and "user_dict json_loads r = Inr u0"
    by (auto simp: verify_user_def Let_def split: option.splits sum.splits)
  with before have "u_id r = user_id"
    by (auto simp: user_dict_def split: sum.splits)
  have "find ?matches (map ?set (users s)) = map_option ?set (find ?matches (users s))"
    by (rule find_map_same) simp
  with r have "find ?matches (map ?set (users s)) = Some (?set r)" by simp
  with dict [OF \<open>u_id r = user_id\<close>] pw
  show "\<exists>u. verify_user sha256 json_loads
                     (update_user_profile json_dumps s user_id background (JArr (map JStr tags)))
                     username password = Inr (Some u)
                   \<and> usr_id u = user_id \<and> usr_interests u = JArr (map JStr tags)"
    by (auto simp: verify_user_def update_user_profile_def Let_def)
qed

text \<open>
  An instance. The stored user bob sets the interests \<open>ai\<close> and \<open>law\<close>; \<open>json.dumps\<close> and \<open>json.loads\<close> are given on the one text they meet here.
\<close>

theorem update_user_profile_roundtrip_witness:
  \<open>1 \<in> set (map u_id (users
      \<lparr>users = [\<lparr>u_id = 1, u_username = ''bob'', u_email = ''b@x.com'',
                 u_password_hash = ''sha256:secret'', u_full_name = ''Bob'',
                 u_phone_number = [], u_educational_background = None,
                 u_interests = None, u_created_at = 50\<rparr>],
       users_seq = 1, chat_sessions = [], chat_messages = [], chat_messages_seq = 0\<rparr>))
   \<and> (\<lambda>interests. if interests = JArr [JStr ''ai'', JStr ''law''] then ''["ai", "law"]''
                   else ''null'') (JArr (map JStr [''ai'', ''law''])) \<noteq> []
   \<and> (\<lambda>text. if text = ''["ai", "law"]'' then Inr (JArr [JStr ''ai'', JStr ''law''])
               else Inl JSONDecodeError)
        ((\<lambda>interests. if interests = JArr [JStr ''ai'', JStr ''law''] then ''["ai", "law"]''
                   else ''null'') (JArr (map JStr [''ai'', ''law''])))
       = Inr (JArr (map JStr [''ai'', ''law'']))
   \<and> verify_user ((@) ''sha256:'')
       (\<lambda>text. if text = ''["ai", "law"]'' then Inr (JArr [JStr ''ai'', JStr ''law''])
               else Inl JSONDecodeError)
      \<lparr>users = [\<lparr>u_id = 1, u_username = ''bob'', u_email = ''b@x.com'',
                 u_password_hash = ''sha256:secret'', u_full_name = ''Bob'',
                 u_phone_number = [], u_educational_background = None,
                 u_interests = None, u_created_at = 50\<rparr>],
       users_seq = 1, chat_sessions = [], chat_messages = [], chat_messages_seq = 0\<rparr>
       (Some ''bob'') (Some ''secret'')
     = Inr (Some \<lparr>usr_id = 1, usr_username = ''bob'', usr_email = ''b@x.com'',
              usr_full_name = ''Bob'', usr_phone_number = [],
              usr_educational_background = None, usr_interests = JArr []\<rparr>)
   \<and> get_user_by_id
       (\<lambda>text. if text = ''["ai", "law"]'' then Inr (JArr [JStr ''ai'', JStr ''law''])
               else Inl JSONDecodeError)
       (update_user_profile
          (\<lambda>interests. if interests = JArr [JStr ''ai'', JStr ''law''] then ''["ai", "law"]''
                   else ''null'')
      \<lparr>users = [\<lparr>u_id = 1, u_username = ''bob'', u_email = ''b@x.com'',
                 u_password_hash = ''sha256:secret'', u_full_name = ''Bob'',
                 u_phone_number = [], u_educational_background = None,
                 u_interests = None, u_created_at = 50\<rparr>],
       users_seq = 1, chat_sessions = [], chat_messages = [], chat_messages_seq = 0\<rparr>
          1 ''FSc Pre-Medical'' (JArr (map JStr [''ai'', ''law''])))
       1
     = Inr (Some \<lparr>usr_id = 1, usr_username = ''bob'', usr_email = ''b@x.com'',
              usr_full_name = ''Bob'', usr_phone_number = [],
              usr_educational_background = Some ''FSc Pre-Medical'',
              usr_interests = JArr [JStr ''ai'', JStr ''law'']\<rparr>)
   \<and> verify_user ((@) ''sha256:'')
       (\<lambda>text. if text = ''["ai", "law"]'' then Inr (JArr [JStr ''ai'', JStr ''law''])
               else Inl JSONDecodeError)
       (update_user_profile
          (\<lambda>interests. if interests = JArr [JStr ''ai'', JStr ''law''] then ''["ai", "law"]''
                   else ''null'')
      \<lparr>users = [\<lparr>u_id = 1, u_username = ''bob'', u_email = ''b@x.com'',
                 u_password_hash = ''sha256:secret'', u_full_name = ''Bob'',
                 u_phone_number = [], u_educational_background = None,
                 u_interests = None, u_created_at = 50\<rparr>],
       users_seq = 1, chat_sessions = [], chat_messages = [], chat_messages_seq = 0\<rparr>
          1 ''FSc Pre-Medical'' (JArr (map JStr [''ai'', ''law''])))
       (Some ''bob'') (Some ''secret'')
     = Inr (Some \<lparr>usr_id = 1, usr_username = ''bob'', usr_email = ''b@x.com'',
              usr_full_name = ''Bob'', usr_phone_number = [],
              usr_educational_background = Some ''FSc Pre-Medical'',
              usr_interests = JArr [JStr ''ai'', JStr ''law'']\<rparr>)\<close>
  (is \<open>?stored \<and> ?nonempty \<and> ?reads \<and> ?before \<and> ?by_id \<and> ?by_login\<close>)
proof -
  have stored: ?stored by simp
  have nonempty: ?nonempty by simp
  have reads: ?reads by simp
  have before: ?before by (simp add: verify_user_def user_dict_def)
  note roundtrip = update_user_profile_roundtrip
    [of 1
       \<open>\<lparr>users = [\<lparr>u_id = 1, u_username = ''bob'', u_email = ''b@x.com'',
                 u_password_hash = ''sha256:secret'', u_full_name = ''Bob'',
                 u_phone_number = [], u_educational_background = None,
                 u_interests = None, u_created_at = 50\<rparr>],
       users_seq = 1, chat_sessions = [], chat_messages = [], chat_messages_seq = 0\<rparr>\<close>
       \<open>(\<lambda>interests. if interests = JArr [JStr ''ai'', JStr ''law''] then ''["ai", "law"]''
                   else ''null'')\<close>
       \<open>[''ai'', ''law'']\<close>
       \<open>(\<lambda>text. if text = ''["ai", "law"]'' then Inr (JArr [JStr ''ai'', JStr ''law''])
               else Inl JSONDecodeError)\<close>
       \<open>''FSc Pre-Medical''\<close>
       \<open>(@) ''sha256:''\<close>
       \<open>Some ''bob''\<close>
       \<open>Some ''secret''\<close>, OF stored nonempty reads]
  from roundtrip [THEN conjunct1] obtain u where
    \<open>get_user_by_id
       (\<lambda>text. if text = ''["ai", "law"]'' then Inr (JArr [JStr ''ai'', JStr ''law''])
               else Inl JSONDecodeError)
       (update_user_profile
          (\<lambda>interests. if interests = JArr [JStr ''ai'', JStr ''law''] then ''["ai", "law"]''
                   else ''null'')
      \<lparr>users = [\<lparr>u_id = 1, u_username = ''bob'', u_email = ''b@x.com'',
                 u_password_hash = ''sha256:secret'', u_full_name = ''Bob'',
                 u_phone_number = [], u_educational_background = None,
                 u_interests = None, u_created_at = 50\<rparr>],
       users_seq = 1, chat_sessions = [], chat_messages = [], chat_messages_seq = 0\<rparr>
          1 ''FSc Pre-Medical'' (JArr (map JStr [''ai'', ''law''])))
       1 = Inr (Some u)\<close>
    and \<open>usr_interests u = JArr (map JStr [''ai'', ''law''])\<close>
    by blast
  moreover have \<open>get_user_by_id
       (\<lambda>text. if text = ''["ai", "law"]'' then Inr (JArr [JStr ''ai'', JStr ''law''])
               else Inl JSONDecodeError)
       (update_user_profile
          (\<lambda>interests. if interests = JArr [JStr ''ai'', JStr ''law''] then ''["ai", "law"]''
                   else ''null'')
      \<lparr>users = [\<lparr>u_id = 1, u_username = ''bob'', u_email = ''b@x.com'',
                 u_password_hash = ''sha256:secret'', u_full_name = ''Bob'',
                 u_phone_number = [], u_educational_background = None,
                 u_interests = None, u_created_at = 50\<rparr>],
       users_seq = 1, chat_sessions = [], chat_messages = [], chat_messages_seq = 0\<rparr>
          1 ''FSc Pre-Medical'' (JArr (map JStr [''ai'', ''law''])))
       1 = Inr (Some \<lparr>usr_id = 1, usr_username = ''bob'', usr_email = ''b@x.com'',
              usr_full_name = ''Bob'', usr_phone_number = [],
              usr_educational_background = Some ''FSc Pre-Medical'',
              usr_interests = JArr [JStr ''ai'', JStr ''law'']\<rparr>)\<close>
    by (simp add: get_user_by_id_def update_user_profile_def user_dict_def)
  ultimately have by_id: ?by_id by simp
  have by_login: ?by_login
    by (simp add: verify_user_def update_user_profile_def user_dict_def)
  from stored nonempty reads before by_id by_login show ?thesis
    by (intro conjI)
qed

subsection \<open>Isolation of chat histories\<close>

lemma sql_eq_same: "sql_eq a b \<Longrightarrow> a = b"
  by (cases a; cases b) auto

text \<open>
  Claim C10. Every entry that \<open>get_chat_history\<close> returns for a session id and a
  user id is a stored message of that user in that session. A user who asks for a session
  in which all messages belong to other users gets the empty list.
\<close>

theorem get_chat_history_isolation:
  "(\<forall>d \<in> set (get_chat_history s session_id user_id).
      \<exists>m \<in> set (chat_messages s).
        mg_user_id m = user_id \<and> mg_session_id m = session_id
        \<and> d = \<lparr>md_type = mg_message_type m, md_text = mg_message_text m,
                md_timestamp = mg_timestamp m\<rparr>)
   \<and> ((\<forall>m \<in> set (chat_messages s). mg_session_id m = session_id \<longrightarrow> mg_user_id m \<noteq> user_id)
        \<longrightarrow> get_chat_history s session_id user_id = [])"
proof (intro conjI impI)
  show "\<forall>d \<in> set (get_chat_history s session_id user_id).
      \<exists>m \<in> set (chat_messages s).
        mg_user_id m = user_id \<and> mg_session_id m = session_id
        \<and> d = \<lparr>md_type = mg_message_type m, md_text = mg_message_text m,
                md_timestamp = mg_timestamp m\<rparr>"
    by (auto simp: get_chat_history_def chat_history_rows_def order_by_asc_def
        dest: sql_eq_same)
next
  assume "\<forall>m \<in> set (chat_messages s). mg_session_id m = session_id \<longrightarrow> mg_user_id m \<noteq> user_id"
  then have "filter (\<lambda>m. sql_eq (mg_session_id m) session_id \<and> mg_user_id m = user_id)
               (chat_messages s) = []"
    by (auto simp: filter_empty_conv dest: sql_eq_same)
  then show "get_chat_history s session_id user_id = []"
    by (simp add: get_chat_history_def chat_history_rows_def order_by_asc_def)
qed

text \<open>
  An instance. Session A holds two messages of user 1 and session B one of user 2: user 2 gets nothing of session A, user 1 gets both messages.
\<close>

theorem get_chat_history_isolation_witness:
  "get_chat_history
      \<lparr>users = [], users_seq = 0, chat_sessions = [],
       chat_messages =
          [\<lparr>mg_id = 1, mg_session_id = Some ''A'', mg_user_id = 1,
            mg_message_type = ''user'', mg_message_text = ''hello'', mg_timestamp = 100\<rparr>,
           \<lparr>mg_id = 2, mg_session_id = Some ''A'', mg_user_id = 1,
            mg_message_type = ''assistant'', mg_message_text = ''welcome'', mg_timestamp = 100\<rparr>,
           \<lparr>mg_id = 3, mg_session_id = Some ''B'', mg_user_id = 2,
            mg_message_type = ''user'', mg_message_text = ''salaam'', mg_timestamp = 120\<rparr>],
       chat_messages_seq = 3\<rparr>
       (Some ''A'') 2 = []
   \<and> get_chat_history
      \<lparr>users = [], users_seq = 0, chat_sessions = [],
       chat_messages =
          [\<lparr>mg_id = 1, mg_session_id = Some ''A'', mg_user_id = 1,
            mg_message_type = ''user'', mg_message_text = ''hello'', mg_timestamp = 100\<rparr>,
           \<lparr>mg_id = 2, mg_session_id = Some ''A'', mg_user_id = 1,
            mg_message_type = ''assistant'', mg_message_text = ''welcome'', mg_timestamp = 100\<rparr>,
           \<lparr>mg_id = 3, mg_session_id = Some ''B'', mg_user_id = 2,
            mg_message_type = ''user'', mg_message_text = ''salaam'', mg_timestamp = 120\<rparr>],
       chat_messages_seq = 3\<rparr>
       (Some ''A'') 1
     = [\<lparr>md_type = ''user'', md_text = ''hello'', md_timestamp = 100\<rparr>,
        \<lparr>md_type = ''assistant'', md_text = ''welcome'', md_timestamp = 100\<rparr>]"
  (is "?nothing \<and> ?own")
proof -
  have others: "\<forall>m \<in> set (chat_messages
      \<lparr>users = [], users_seq = 0, chat_sessions = [],
       chat_messages =
          [\<lparr>mg_id = 1, mg_session_id = Some ''A'', mg_user_id = 1,
            mg_message_type = ''user'', mg_message_text = ''hello'', mg_timestamp = 100\<rparr>,
           \<lparr>mg_id = 2, mg_session_id = Some ''A'', mg_user_id = 1,
            mg_message_type = ''assistant'', mg_message_text = ''welcome'', mg_timestamp = 100\<rparr>,
           \<lparr>mg_id = 3, mg_session_id = Some ''B'', mg_user_id = 2,
            mg_message_type = ''user'', mg_message_text = ''salaam'', mg_timestamp = 120\<rparr>],
       chat_messages_seq = 3\<rparr>).
        mg_session_id m = Some ''A'' \<longrightarrow> mg_user_id m \<noteq> 2"
    by simp
  from get_chat_history_isolation [THEN conjunct2, THEN mp, OF others] have ?nothing .
  moreover have ?own
    by (simp add: get_chat_history_def chat_history_rows_def order_by_asc_def)
  ultimately show ?thesis by (intro conjI)
qed

end
